theory Spec2Isabelle
  imports Complex_Main "HOL-Library.Log_Nat"
begin

section \<open>Numbers\<close>

text \<open>
  The TypeScript and JavaScript sources compute on \<open>number\<close>, the IEEE 754 doubles.

  The inventory page only compares the numbers of its items, and the mobile order list
  only adds 1 to and subtracts 1 from a quantity that starts at 1. For these a
  \<open>number\<close> is the rational it denotes.
\<close>

type_synonym number = rat

text \<open>
  Where the sources multiply, add over a list or subtract (the order totals, the profit
  margin), a number is a \<open>jsnum\<close>: a finite value, an infinity or NaN, and the
  operations round as the doubles do. The two zeros of the doubles are one value here;
  the sources modelled do not divide, and nothing else tells them apart.
\<close>

datatype jsnum = Num rat | PosInf | NegInf | NaN

text \<open>Rounding to the nearest integer, a tie to the even one.\<close>

definition round_half_even :: "rat \<Rightarrow> int" where
  "round_half_even x =
    (let f = \<lfloor>x\<rfloor>; d = x - of_int f
     in if d < 1 / 2 then f else if 1 / 2 < d then f + 1 else if even f then f else f + 1)"

text \<open>The binary exponent of a positive rational: the \<open>k\<close> with \<open>2^k \<le> r < 2^(k+1)\<close>.\<close>

definition floor_log2 :: "rat \<Rightarrow> int" where
  "floor_log2 r = (if 1 \<le> r then bitlen \<lfloor>r\<rfloor> - 1 else - bitlen (\<lceil>1 / r\<rceil> - 1))"

text \<open>
  The double nearest to a rational (ties to even): a significand of 53 bits, the smallest
  exponent of a unit in the last place \<open>-1074\<close>, and an infinity when the rounded
  magnitude reaches \<open>2^1024\<close>.
\<close>

definition round_to_double :: "rat \<Rightarrow> jsnum" where
  "round_to_double x =
    (if x = 0 then Num 0
     else let e = max (- 1074) (floor_log2 \<bar>x\<bar> - 52);
              y = of_int (round_half_even (\<bar>x\<bar> / 2 powi e)) * 2 powi e
          in if 2 ^ 1024 \<le> y then (if 0 < x then PosInf else NegInf)
             else Num (sgn x * y))"

text \<open>The operators \<open>+\<close>, \<open>*\<close>, unary and binary \<open>-\<close> of the language.\<close>

fun js_add :: "jsnum \<Rightarrow> jsnum \<Rightarrow> jsnum" where
  "js_add (Num a) (Num b) = round_to_double (a + b)"
| "js_add (Num a) PosInf = PosInf"
| "js_add (Num a) NegInf = NegInf"
| "js_add (Num a) NaN = NaN"
| "js_add PosInf (Num b) = PosInf"
| "js_add PosInf PosInf = PosInf"
| "js_add PosInf NegInf = NaN"
| "js_add PosInf NaN = NaN"
| "js_add NegInf (Num b) = NegInf"
| "js_add NegInf PosInf = NaN"
| "js_add NegInf NegInf = NegInf"
| "js_add NegInf NaN = NaN"
| "js_add NaN w = NaN"

fun js_mul :: "jsnum \<Rightarrow> jsnum \<Rightarrow> jsnum" where
  "js_mul (Num a) (Num b) = round_to_double (a * b)"
| "js_mul (Num a) PosInf = (if a = 0 then NaN else if 0 < a then PosInf else NegInf)"
| "js_mul (Num a) NegInf = (if a = 0 then NaN else if 0 < a then NegInf else PosInf)"
| "js_mul (Num a) NaN = NaN"
| "js_mul PosInf (Num b) = (if b = 0 then NaN else if 0 < b then PosInf else NegInf)"
| "js_mul PosInf PosInf = PosInf"
| "js_mul PosInf NegInf = NegInf"
| "js_mul PosInf NaN = NaN"
| "js_mul NegInf (Num b) = (if b = 0 then NaN else if 0 < b then NegInf else PosInf)"
| "js_mul NegInf PosInf = NegInf"
| "js_mul NegInf NegInf = PosInf"
| "js_mul NegInf NaN = NaN"
| "js_mul NaN w = NaN"



text \<open>The literal \<open>0.15\<close>: the double nearest to 15/100.\<close>

definition js_0_15 :: jsnum where
  "js_0_15 = round_to_double (15 / 100)"

text \<open>A whole number among the \<open>jsnum\<close>, and the value of a finite \<open>jsnum\<close>.\<close>

fun is_whole :: "jsnum \<Rightarrow> bool" where
  "is_whole (Num r) = (of_int \<lfloor>r\<rfloor> = r)"
| "is_whole PosInf = False"
| "is_whole NegInf = False"
| "is_whole NaN = False"

fun num_value :: "jsnum \<Rightarrow> rat" where
  "num_value (Num r) = r"
| "num_value PosInf = 0"
| "num_value NegInf = 0"
| "num_value NaN = 0"

section \<open>Point of sale page (frontend/src/pages/POS.tsx)\<close>

subsection \<open>Types\<close>

datatype table_status = Available | Occupied | Reserved | Dirty

record TableInfo =
  ti_id :: string
  ti_name :: string
  capacity :: jsnum
  ti_status :: table_status
  section_id :: string

datatype order_status = New | Preparing | Ready | Served | Paid

datatype order_type = DineIn | Takeout | Delivery

datatype payment_status = PaymentPending | PaymentPartial | PaymentPaid

text \<open>
  Interface \<open>Order\<close>. The field \<open>id\<close> is \<open>o_id\<close> here; optional fields are options.
\<close>

record Order =
  o_id :: string
  table_id :: string
  status :: order_status
  customer_name :: "string option"
  customer_phone :: "string option"
  party_size :: "jsnum option"
  order_type :: order_type
  subtotal :: jsnum
  tax :: jsnum
  discount :: jsnum
  total :: jsnum
  payment_status :: payment_status
  created_at :: string
  updated_at :: string
  user_id :: string

datatype item_status = ItemNew | ItemPreparing | ItemReady | ItemServed

text \<open>Interface \<open>OrderItem\<close>; \<open>id\<close>, \<open>notes\<close> and \<open>status\<close> are \<open>oi_id\<close>, \<open>oi_notes\<close> and \<open>oi_status\<close>.\<close>

record OrderItem =
  oi_id :: string
  order_id :: string
  menu_item_id :: string
  menu_item_name :: string
  quantity :: jsnum
  unit_price :: jsnum
  oi_notes :: "string option"
  oi_status :: item_status

text \<open>An entry of the page's \<open>menuItems\<close> list.\<close>

record PosMenuItem =
  pm_id :: string
  pm_name :: string
  pm_price :: jsnum
  pm_category :: string

definition menuItems :: "PosMenuItem list" where
  "menuItems =
    [\<lparr>pm_id = ''1'', pm_name = ''Beef Burger'', pm_price = Num 250, pm_category = ''Burgers''\<rparr>,
     \<lparr>pm_id = ''2'', pm_name = ''Chicken Burger'', pm_price = Num 220, pm_category = ''Burgers''\<rparr>,
     \<lparr>pm_id = ''3'', pm_name = ''Coke 330ml'', pm_price = Num 40, pm_category = ''Drinks''\<rparr>,
     \<lparr>pm_id = ''4'', pm_name = ''Fanta 330ml'', pm_price = Num 40, pm_category = ''Drinks''\<rparr>,
     \<lparr>pm_id = ''5'', pm_name = ''French Fries'', pm_price = Num 80, pm_category = ''Sides''\<rparr>,
     \<lparr>pm_id = ''6'', pm_name = ''Onion Rings'', pm_price = Num 90, pm_category = ''Sides''\<rparr>]"

text \<open>The form state \<open>newOrderItem\<close>.\<close>

record NewOrderItem =
  new_menu_item_id :: string
  new_quantity :: jsnum
  new_notes :: string

text \<open>
  The component state: one field for each \<open>useState\<close> cell that has a setter. The
  cells \<open>tables\<close> and \<open>menuItems\<close> have none and are constants.
\<close>

record pos_state =
  activeTab :: nat
  selectedTable :: "TableInfo option"
  openPaymentDialog :: bool
  currentOrder :: "Order option"
  orderItems :: "OrderItem list"
  newOrderItem :: NewOrderItem

definition pos_initial :: pos_state where
  "pos_initial =
    \<lparr>activeTab = 0, selectedTable = None, openPaymentDialog = False, currentOrder = None,
     orderItems = [],
     newOrderItem = \<lparr>new_menu_item_id = [], new_quantity = Num 1, new_notes = []\<rparr>\<rparr>"

subsection \<open>Totals\<close>

text \<open>
  \<open>calculateTotals\<close> returns the object \<open>{ subtotal, tax, total }\<close>; its fields are
  \<open>calc_subtotal\<close>, \<open>calc_tax\<close> and \<open>calc_total\<close> here. The subtotal is the
  \<open>reduce\<close> over the order items from 0, the tax is the subtotal times \<open>0.15\<close>, the
  total is their sum, each operation on doubles. The function reads the order items and
  nothing else of the state.
\<close>

record Totals =
  calc_subtotal :: jsnum
  calc_tax :: jsnum
  calc_total :: jsnum

definition calculateTotals :: "OrderItem list \<Rightarrow> Totals" where
  "calculateTotals items =
    (let subtotal' =
           foldl (\<lambda>sum item. js_add sum (js_mul (unit_price item) (quantity item)))
             (Num 0) items;
         tax' = js_mul subtotal' js_0_15;
         total' = js_add subtotal' tax'
     in \<lparr>calc_subtotal = subtotal', calc_tax = tax', calc_total = total'\<rparr>)"

subsection \<open>Handlers\<close>

definition handleTabChange :: "nat \<Rightarrow> pos_state \<Rightarrow> pos_state" where
  "handleTabChange newValue st = st\<lparr>activeTab := newValue\<rparr>"

definition handleTableSelect :: "TableInfo \<Rightarrow> pos_state \<Rightarrow> pos_state" where
  "handleTableSelect table st =
    st\<lparr>selectedTable := Some table, currentOrder := None, orderItems := []\<rparr>"

text \<open>
  \<open>handleAddItem\<close>. The argument \<open>now\<close> is the string \<open>Date.now().toString()\<close>.
  The two early returns leave the state as it is. \<open>currentOrder?.id || 'new'\<close> is
  \<open>'new'\<close> when there is no current order or its id is the empty string.
\<close>

definition handleAddItem :: "string \<Rightarrow> pos_state \<Rightarrow> pos_state" where
  "handleAddItem now st =
    (if new_menu_item_id (newOrderItem st) = [] then st
     else case find (\<lambda>item. pm_id item = new_menu_item_id (newOrderItem st)) menuItems of
       None \<Rightarrow> st
     | Some menuItem \<Rightarrow>
         let newItem =
           \<lparr>oi_id = now,
            order_id = (case currentOrder st of
                          None \<Rightarrow> ''new''
                        | Some ord \<Rightarrow> if o_id ord = [] then ''new'' else o_id ord),
            menu_item_id = new_menu_item_id (newOrderItem st),
            menu_item_name = pm_name menuItem,
            quantity = new_quantity (newOrderItem st),
            unit_price = pm_price menuItem,
            oi_notes = Some (new_notes (newOrderItem st)),
            oi_status = ItemNew\<rparr>
         in st\<lparr>orderItems := orderItems st @ [newItem],
               newOrderItem :=
                 \<lparr>new_menu_item_id = [], new_quantity = Num 1, new_notes = []\<rparr>\<rparr>)"

definition handleRemoveItem :: "string \<Rightarrow> pos_state \<Rightarrow> pos_state" where
  "handleRemoveItem itemId st =
    st\<lparr>orderItems := filter (\<lambda>item. oi_id item \<noteq> itemId) (orderItems st)\<rparr>"

definition handleOpenPayment :: "pos_state \<Rightarrow> pos_state" where
  "handleOpenPayment st = st\<lparr>openPaymentDialog := True\<rparr>"

text \<open>
  \<open>handlePayment\<close> writes a fixed line to the console and closes the payment dialog.
  The dialog's amount and method fields are not bound to any state, so the handler has
  no amount to read.
\<close>

definition handlePayment :: "pos_state \<Rightarrow> pos_state" where
  "handlePayment st = st\<lparr>openPaymentDialog := False\<rparr>"

text \<open>
  The state changes of the page: its six handlers and the two setters that the markup
  calls directly (\<open>setNewOrderItem\<close> by the form fields, \<open>setOpenPaymentDialog(false)\<close>
  by the dialog's Cancel button and \<open>onClose\<close>).
\<close>

datatype pos_event =
    PosTabChange nat
  | PosTableSelect TableInfo
  | PosSetNewOrderItem NewOrderItem
  | PosAddItem string
  | PosRemoveItem string
  | PosOpenPayment
  | PosClosePaymentDialog
  | PosPayment

fun pos_step :: "pos_state \<Rightarrow> pos_event \<Rightarrow> pos_state" where
  "pos_step st (PosTabChange n) = handleTabChange n st"
| "pos_step st (PosTableSelect table) = handleTableSelect table st"
| "pos_step st (PosSetNewOrderItem v) = st\<lparr>newOrderItem := v\<rparr>"
| "pos_step st (PosAddItem now) = handleAddItem now st"
| "pos_step st (PosRemoveItem itemId) = handleRemoveItem itemId st"
| "pos_step st PosOpenPayment = handleOpenPayment st"
| "pos_step st PosClosePaymentDialog = st\<lparr>openPaymentDialog := False\<rparr>"
| "pos_step st PosPayment = handlePayment st"

section \<open>Mobile order screen (mobile/src/screens/OrderScreen.js)\<close>

text \<open>
  A menu item is an object \<open>{ id, name, price, category }\<close>; an entry of the order list
  is such an object with a \<open>quantity\<close>. The fields are \<open>me_id\<close>, \<open>me_name\<close>,
  \<open>me_price\<close>, \<open>me_category\<close> and \<open>entry_quantity\<close> here.
\<close>

record MenuEntry =
  me_id :: string
  me_name :: string
  me_price :: number
  me_category :: string

record OrderEntry = MenuEntry +
  entry_quantity :: number

text \<open>
  \<open>addToOrder\<close> is called with a menu item (menu list) or with an entry of the order
  (the plus button): it reads the argument's \<open>id\<close> and, in the second branch, copies
  its fields and sets \<open>quantity\<close> to 1 whatever the argument carried.
\<close>

definition addToOrder :: "'a MenuEntry_scheme \<Rightarrow> OrderEntry list \<Rightarrow> OrderEntry list" where
  "addToOrder item entries =
    (case find (\<lambda>orderItem. me_id orderItem = me_id item) entries of
       Some existingItem \<Rightarrow>
         map (\<lambda>orderItem.
                if me_id orderItem = me_id item
                then orderItem\<lparr>entry_quantity := entry_quantity orderItem + 1\<rparr>
                else orderItem) entries
     | None \<Rightarrow>
         entries @
           [\<lparr>me_id = me_id item, me_name = me_name item, me_price = me_price item,
             me_category = me_category item, entry_quantity = 1\<rparr>])"

definition removeFromOrder :: "string \<Rightarrow> OrderEntry list \<Rightarrow> OrderEntry list" where
  "removeFromOrder itemId entries =
    (case find (\<lambda>item. me_id item = itemId) entries of
       Some existingItem \<Rightarrow>
         if entry_quantity existingItem > 1
         then map (\<lambda>item.
                     if me_id item = itemId
                     then item\<lparr>entry_quantity := entry_quantity item - 1\<rparr>
                     else item) entries
         else filter (\<lambda>item. me_id item \<noteq> itemId) entries
     | None \<Rightarrow> filter (\<lambda>item. me_id item \<noteq> itemId) entries)"

text \<open>\<open>calculateTotal\<close>: the \<open>reduce\<close> from 0, on doubles.\<close>

definition calculateTotal :: "OrderEntry list \<Rightarrow> jsnum" where
  "calculateTotal entries =
    foldl (\<lambda>total' item.
             js_add total' (js_mul (Num (me_price item)) (Num (entry_quantity item))))
      (Num 0) entries"

text \<open>The presses of the screen that change the order list, and a run of them from the
  empty list the screen starts with.\<close>

datatype order_action = AddToOrder MenuEntry | RemoveFromOrder string

fun order_step :: "OrderEntry list \<Rightarrow> order_action \<Rightarrow> OrderEntry list" where
  "order_step entries (AddToOrder item) = addToOrder item entries"
| "order_step entries (RemoveFromOrder itemId) = removeFromOrder itemId entries"

definition order_run :: "order_action list \<Rightarrow> OrderEntry list" where
  "order_run actions = foldl order_step [] actions"

text \<open>The quantity the list shows for an id: that of the first entry with the id, 0 when
  there is none.\<close>

definition quantity_of :: "string \<Rightarrow> OrderEntry list \<Rightarrow> number" where
  "quantity_of itemId entries =
    (case find (\<lambda>item. me_id item = itemId) entries of
       None \<Rightarrow> 0
     | Some item \<Rightarrow> entry_quantity item)"

text \<open>Ids occur once, and every quantity is a whole number from 1 up.\<close>

definition whole :: "number \<Rightarrow> bool" where
  "whole q \<longleftrightarrow> of_int \<lfloor>q\<rfloor> = q"

definition order_ok :: "OrderEntry list \<Rightarrow> bool" where
  "order_ok entries \<longleftrightarrow>
     distinct (map me_id entries) \<and>
     list_all (\<lambda>item. whole (entry_quantity item) \<and> 1 \<le> entry_quantity item) entries"

section \<open>Inventory page (frontend/src/pages/Inventory.tsx)\<close>

text \<open>Interface \<open>InventoryItem\<close>; \<open>id\<close>, \<open>name\<close>, \<open>category\<close>, \<open>unit\<close> and
  \<open>supplier\<close> carry the prefix \<open>inv_\<close>.\<close>

record InventoryItem =
  inv_id :: string
  inv_name :: string
  inv_category :: string
  current_stock :: number
  inv_unit :: string
  unit_cost :: number
  min_stock :: number
  inv_supplier :: string
  category_type :: string

datatype transaction_type = Receiving | Issuing | Adjustment

text \<open>Interface \<open>InventoryTransaction\<close>. The page declares it and builds no value of it.\<close>

record InventoryTransaction =
  tx_id :: string
  tx_type :: transaction_type
  reference_id :: string
  tx_date :: string
  tx_notes :: string
  tx_user_id :: string

datatype dialog_mode = AddMode | EditMode

text \<open>
  The component state. The eight form cells are strings. The cell \<open>inventoryItems\<close> is
  created without a setter; it is a field of the state so that what the handlers do to
  it can be stated.
\<close>

record inventory_state =
  inv_activeTab :: nat
  openDialog :: bool
  dialogMode :: dialog_mode
  currentItem :: "InventoryItem option"
  form_name :: string
  form_category :: string
  form_currentStock :: string
  form_unit :: string
  form_unitCost :: string
  form_minStock :: string
  form_supplier :: string
  form_categoryType :: string
  inventoryItems :: "InventoryItem list"

definition sampleInventoryItems :: "InventoryItem list" where
  "sampleInventoryItems =
    [\<lparr>inv_id = ''1'', inv_name = ''Beef'', inv_category = ''Raw Materials'',
      current_stock = 125 / 10, inv_unit = ''kg'', unit_cost = 620, min_stock = 5,
      inv_supplier = ''Fresh Meat Co.'', category_type = ''Meat''\<rparr>,
     \<lparr>inv_id = ''2'', inv_name = ''Buns'', inv_category = ''Raw Materials'',
      current_stock = 240, inv_unit = ''pcs'', unit_cost = 52 / 10, min_stock = 100,
      inv_supplier = ''Bun Supply Ltd.'', category_type = ''Bakery''\<rparr>,
     \<lparr>inv_id = ''3'', inv_name = ''Lettuce'', inv_category = ''Raw Materials'',
      current_stock = 152 / 10, inv_unit = ''kg'', unit_cost = 80, min_stock = 3,
      inv_supplier = ''Fresh Vegetables Inc.'', category_type = ''Vegetables''\<rparr>]"

definition inventory_initial :: inventory_state where
  "inventory_initial =
    \<lparr>inv_activeTab = 0, openDialog = False, dialogMode = AddMode, currentItem = None,
     form_name = [], form_category = [], form_currentStock = [], form_unit = [],
     form_unitCost = [], form_minStock = [], form_supplier = [], form_categoryType = [],
     inventoryItems = sampleInventoryItems\<rparr>"

definition inv_handleTabChange :: "nat \<Rightarrow> inventory_state \<Rightarrow> inventory_state" where
  "inv_handleTabChange newValue st = st\<lparr>inv_activeTab := newValue\<rparr>"

text \<open>
  \<open>handleOpenDialog\<close>. The argument \<open>toString\<close> is JavaScript's rendering of a number
  as a string, which fills the three numeric form cells in edit mode.
\<close>

definition handleOpenDialog ::
  "(number \<Rightarrow> string) \<Rightarrow> dialog_mode \<Rightarrow> InventoryItem option \<Rightarrow> inventory_state \<Rightarrow> inventory_state"
where
  "handleOpenDialog toString mode item st =
    (let st1 = st\<lparr>dialogMode := mode\<rparr>;
         st2 =
           (case (mode, item) of
              (EditMode, Some it) \<Rightarrow>
                st1\<lparr>currentItem := Some it,
                    form_name := inv_name it,
                    form_category := inv_category it,
                    form_currentStock := toString (current_stock it),
                    form_unit := inv_unit it,
                    form_unitCost := toString (unit_cost it),
                    form_minStock := toString (min_stock it),
                    form_supplier := inv_supplier it,
                    form_categoryType := category_type it\<rparr>
            | _ \<Rightarrow>
                st1\<lparr>currentItem := None,
                    form_name := [], form_category := [], form_currentStock := [],
                    form_unit := [], form_unitCost := [], form_minStock := [],
                    form_supplier := [], form_categoryType := []\<rparr>)
     in st2\<lparr>openDialog := True\<rparr>)"

definition handleCloseDialog :: "inventory_state \<Rightarrow> inventory_state" where
  "handleCloseDialog st = st\<lparr>openDialog := False\<rparr>"

text \<open>
  \<open>handleSubmit\<close> prints the form values (the numeric ones through \<open>parseFloat\<close>) on
  the console and calls \<open>handleCloseDialog\<close>. The console is not part of the state.
\<close>

definition handleSubmit :: "inventory_state \<Rightarrow> inventory_state" where
  "handleSubmit st = handleCloseDialog st"

text \<open>
  Everything a user can trigger on the page. The buttons Receive, Issue, New Transaction,
  Delete, Reorder and those of the units tab have no \<open>onClick\<close>: pressing one is
  \<open>PressUnboundButton\<close>.
\<close>

datatype inventory_event =
    TabChange nat
  | OpenDialog dialog_mode "InventoryItem option"
  | CloseDialog
  | Submit
  | SetName string
  | SetCategory string
  | SetCurrentStock string
  | SetUnit string
  | SetUnitCost string
  | SetMinStock string
  | SetSupplier string
  | SetCategoryType string
  | PressUnboundButton

fun inventory_step ::
  "(number \<Rightarrow> string) \<Rightarrow> inventory_state \<Rightarrow> inventory_event \<Rightarrow> inventory_state"
where
  "inventory_step toString st (TabChange n) = inv_handleTabChange n st"
| "inventory_step toString st (OpenDialog mode item) = handleOpenDialog toString mode item st"
| "inventory_step toString st CloseDialog = handleCloseDialog st"
| "inventory_step toString st Submit = handleSubmit st"
| "inventory_step toString st (SetName v) = st\<lparr>form_name := v\<rparr>"
| "inventory_step toString st (SetCategory v) = st\<lparr>form_category := v\<rparr>"
| "inventory_step toString st (SetCurrentStock v) = st\<lparr>form_currentStock := v\<rparr>"
| "inventory_step toString st (SetUnit v) = st\<lparr>form_unit := v\<rparr>"
| "inventory_step toString st (SetUnitCost v) = st\<lparr>form_unitCost := v\<rparr>"
| "inventory_step toString st (SetMinStock v) = st\<lparr>form_minStock := v\<rparr>"
| "inventory_step toString st (SetSupplier v) = st\<lparr>form_supplier := v\<rparr>"
| "inventory_step toString st (SetCategoryType v) = st\<lparr>form_categoryType := v\<rparr>"
| "inventory_step toString st PressUnboundButton = st"

text \<open>The rows of the Low Stock tab: the filter of the item list.\<close>

definition lowStockItems :: "InventoryItem list \<Rightarrow> InventoryItem list" where
  "lowStockItems its = filter (\<lambda>item. current_stock item \<le> min_stock item) its"

text \<open>The status cell of the items table.\<close>

datatype stock_label = LowStock | StockWarning | StockOK

definition stockStatus :: "InventoryItem \<Rightarrow> stock_label" where
  "stockStatus item =
    (if current_stock item \<le> min_stock item then LowStock
     else if current_stock item \<le> min_stock item * (15 / 10) then StockWarning
     else StockOK)"

section \<open>Menu management (frontend/src/pages/MenuManagement.tsx, features/menu/menuSlice.ts)\<close>

text \<open>
  The menu item type, with the fields the page and the slice read. \<open>id\<close> and \<open>name\<close>
  are \<open>menu_id\<close> and \<open>menu_name\<close>.
\<close>

record MenuItem =
  menu_id :: string
  menu_name :: string
  description :: string
  price :: jsnum
  cost :: jsnum
  category_id :: string
  category_name :: string
  is_available :: bool
  prep_time :: "jsnum option"

text \<open>The slice state; the category type is a parameter.\<close>

record 'c MenuState =
  categories :: "'c list"
  items :: "MenuItem list"
  loading :: bool
  error :: "string option"


text \<open>The reducer cases for the fulfilled item requests.\<close>

definition fetchMenuItems_fulfilled :: "MenuItem list \<Rightarrow> 'c MenuState \<Rightarrow> 'c MenuState" where
  "fetchMenuItems_fulfilled payload st = st\<lparr>loading := False, items := payload\<rparr>"


fun replace_first :: "('a \<Rightarrow> bool) \<Rightarrow> 'a \<Rightarrow> 'a list \<Rightarrow> 'a list" where
  "replace_first P y [] = []"
| "replace_first P y (x # xs) = (if P x then y # xs else x # replace_first P y xs)"

text \<open>\<open>findIndex\<close> and the store at the index found, nothing when it is -1.\<close>

definition updateMenuItem_fulfilled :: "MenuItem \<Rightarrow> 'c MenuState \<Rightarrow> 'c MenuState" where
  "updateMenuItem_fulfilled payload st =
    st\<lparr>items := replace_first (\<lambda>item. menu_id item = menu_id payload) payload (items st)\<rparr>"

definition deleteMenuItem_fulfilled :: "string \<Rightarrow> 'c MenuState \<Rightarrow> 'c MenuState" where
  "deleteMenuItem_fulfilled payload st =
    st\<lparr>items := filter (\<lambda>item. menu_id item \<noteq> payload) (items st)\<rparr>"





section \<open>Concrete inputs\<close>

text \<open>
  A run of the point of sale page from its initial state: Table 2 is chosen, then one
  Coke and two French Fries are added through the add-item form.
\<close>

definition table_2 :: TableInfo where
  "table_2 =
    \<lparr>ti_id = ''2'', ti_name = ''Table 2'', capacity = Num 4, ti_status = Occupied,
     section_id = ''A''\<rparr>"

definition order_events :: "pos_event list" where
  "order_events =
    [PosTableSelect table_2,
     PosSetNewOrderItem \<lparr>new_menu_item_id = ''3'', new_quantity = Num 1, new_notes = []\<rparr>,
     PosAddItem ''1718000000001'',
     PosSetNewOrderItem \<lparr>new_menu_item_id = ''5'', new_quantity = Num 2, new_notes = []\<rparr>,
     PosAddItem ''1718000000002'']"

definition ordered_state :: pos_state where
  "ordered_state = foldl pos_step pos_initial order_events"

text \<open>The order items of that state.\<close>

definition sample_items :: "OrderItem list" where
  "sample_items =
    [\<lparr>oi_id = ''1718000000001'', order_id = ''new'', menu_item_id = ''3'',
      menu_item_name = ''Coke 330ml'', quantity = Num 1, unit_price = Num 40,
      oi_notes = Some [], oi_status = ItemNew\<rparr>,
     \<lparr>oi_id = ''1718000000002'', order_id = ''new'', menu_item_id = ''5'',
      menu_item_name = ''French Fries'', quantity = Num 2, unit_price = Num 80,
      oi_notes = Some [], oi_status = ItemNew\<rparr>]"

text \<open>The same state with the payment dialog opened by the Process Payment button.\<close>

definition checkout_state :: pos_state where
  "checkout_state = pos_step ordered_state PosOpenPayment"

text \<open>
  A run in which 9007199254740992 (that is \<open>2^53\<close>) is typed as the quantity of Coke,
  and then one more Coke is added.
\<close>

definition bulk_events :: "pos_event list" where
  "bulk_events =
    [PosTableSelect table_2,
     PosSetNewOrderItem
       \<lparr>new_menu_item_id = ''3'', new_quantity = Num 9007199254740992, new_notes = []\<rparr>,
     PosAddItem ''1718000000001'',
     PosSetNewOrderItem \<lparr>new_menu_item_id = ''3'', new_quantity = Num 1, new_notes = []\<rparr>,
     PosAddItem ''1718000000002'']"

definition bulk_items :: "OrderItem list" where
  "bulk_items = orderItems (foldl pos_step pos_initial bulk_events)"



text \<open>The first inventory item with its stock at its minimum.\<close>

definition beef_at_minimum :: InventoryItem where
  "beef_at_minimum = (hd sampleInventoryItems)\<lparr>current_stock := 5\<rparr>"

text \<open>The inventory page with the edit dialog open on Beef and 20 typed as its stock.\<close>

definition restock_state :: inventory_state where
  "restock_state =
    inventory_initial\<lparr>openDialog := True, dialogMode := EditMode,
      currentItem := Some (hd sampleInventoryItems),
      form_name := ''Beef'', form_category := ''Raw Materials'', form_currentStock := ''20'',
      form_unit := ''kg'', form_unitCost := ''620'', form_minStock := ''5'',
      form_supplier := ''Fresh Meat Co.'', form_categoryType := ''Meat''\<rparr>"

text \<open>Two menu items of the mobile screen and a run of presses on it.\<close>

definition beef_burger :: MenuEntry where
  "beef_burger =
    \<lparr>me_id = ''1'', me_name = ''Beef Burger'', me_price = 250, me_category = ''Burgers''\<rparr>"

definition coke :: MenuEntry where
  "coke = \<lparr>me_id = ''3'', me_name = ''Coke 330ml'', me_price = 40, me_category = ''Drinks''\<rparr>"

definition sample_actions :: "order_action list" where
  "sample_actions =
    [AddToOrder beef_burger, AddToOrder coke, AddToOrder beef_burger,
     RemoveFromOrder ''3'', RemoveFromOrder ''1'']"




section \<open>Rounding to a double\<close>

lemma round_half_even_of_int: "round_half_even (of_int m) = m"
  by (simp add: round_half_even_def)

lemma round_to_double_pos_int:
  assumes "0 < m" and "m \<le> 2 ^ 53"
  shows "round_to_double (of_int m) = Num (of_int m)"
proof -
  have abs: "\<bar>rat_of_int m\<bar> = of_int m" using assms(1) by simp
  have fl: "floor_log2 (of_int m) = bitlen m - 1"
    using assms(1) by (simp add: floor_log2_def)
  have b1: "1 \<le> bitlen m"
    using assms(1) by (simp add: bitlen_ge_iff_power)
  have e: "max (- 1074) (floor_log2 (rat_of_int m) - 52) = bitlen m - 53"
    using b1 by (simp add: fl)
  have y: "of_int (round_half_even (rat_of_int m / 2 powi (bitlen m - 53)))
            * (2::rat) powi (bitlen m - 53) = of_int m"
  proof (cases "m < 2 ^ 53")
    case True
    then have b2: "bitlen m \<le> 53" by (simp add: bitlen_le_iff_power)
    define k where "k = nat (53 - bitlen m)"
    have ek: "bitlen m - 53 = - int k" using b2 by (simp add: k_def)
    have p: "(2::rat) powi (bitlen m - 53) = 1 / 2 ^ k"
      by (simp add: ek power_int_minus field_simps)
    have q: "rat_of_int m / 2 powi (bitlen m - 53) = of_int (m * 2 ^ k)"
      by (simp add: p)
    show ?thesis
      unfolding q round_half_even_of_int by (simp add: p)
  next
    case False
    with assms(2) have m: "m = 2 ^ 53" by simp
    have bl: "bitlen 9007199254740992 = 54"
      using bitlen_twopow_add_eq [of 0 53] by simp
    show ?thesis
      by (simp add: m bl round_half_even_def)
  qed
  have small: "\<not> (2::rat) ^ 1024 \<le> of_int m"
  proof -
    have "rat_of_int m \<le> of_int (2 ^ 53)" using assms(2) by (simp only: of_int_le_iff)
    also have "\<dots> < 2 ^ 1024" by simp
    finally show ?thesis by simp
  qed
  have nz: "rat_of_int m \<noteq> 0" "0 < rat_of_int m" using assms(1) by simp_all
  show ?thesis
    unfolding round_to_double_def Let_def abs e y
    using small nz by simp
qed

lemma round_to_double_neg: "round_to_double (- x) = (case round_to_double x of
    Num y \<Rightarrow> Num (- y) | PosInf \<Rightarrow> NegInf | NegInf \<Rightarrow> PosInf | NaN \<Rightarrow> NaN)"
  by (simp add: round_to_double_def Let_def)

lemma round_to_double_int:
  assumes "\<bar>n\<bar> \<le> 2 ^ 53"
  shows "round_to_double (of_int n) = Num (of_int n)"
proof (cases "n = 0")
  case True
  then show ?thesis by (simp add: round_to_double_def)
next
  case False
  show ?thesis
  proof (cases "0 < n")
    case True
    with assms show ?thesis by (intro round_to_double_pos_int) simp_all
  next
    case neg: False
    with False assms have "0 < - n" "- n \<le> 2 ^ 53" by simp_all
    then have "round_to_double (of_int (- n)) = Num (of_int (- n))"
      by (rule round_to_double_pos_int)
    then show ?thesis
      using round_to_double_neg [of "of_int (- n)"] by simp
  qed
qed








lemma round_to_double_whole:
  assumes "r \<in> \<int>" and "\<bar>r\<bar> \<le> 2 ^ 53"
  shows "round_to_double r = Num r"
proof -
  from assms(1) obtain n :: int where r: "r = of_int n" by (auto elim: Ints_cases)
  have "rat_of_int \<bar>n\<bar> \<le> of_int (2 ^ 53)" using assms(2) by (simp add: r)
  then have "\<bar>n\<bar> \<le> 2 ^ 53" by (simp only: of_int_le_iff)
  then show ?thesis unfolding r by (rule round_to_double_int)
qed

lemma round_to_double_numeral:
  "numeral k \<le> (9007199254740992::int) \<Longrightarrow> round_to_double (numeral k) = Num (numeral k)"
  using round_to_double_int [of "numeral k"] by simp

lemma round_to_double_0: "round_to_double 0 = Num 0"
  by (simp add: round_to_double_def)

lemma round_to_double_1: "round_to_double 1 = Num 1"
  using round_to_double_int [of 1] by simp

lemmas round_small = round_to_double_numeral round_to_double_0 round_to_double_1

lemma is_whole_Ints: "is_whole v \<longleftrightarrow> (\<exists>r. v = Num r \<and> r \<in> \<int>)"
  by (cases v) (auto simp add: Ints_def)



lemma sum_list_abs_nonneg: "0 \<le> (\<Sum>x\<leftarrow>xs. \<bar>f x :: rat\<bar>)"
  by (induction xs) simp_all

lemma foldl_whole_lines:
  fixes P Q :: "'a \<Rightarrow> jsnum"
  assumes "a \<in> \<int>"
    and "\<forall>x \<in> set xs. is_whole (P x) \<and> is_whole (Q x)"
    and "\<bar>a\<bar> + (\<Sum>x\<leftarrow>xs. \<bar>num_value (P x) * num_value (Q x)\<bar>) \<le> 2 ^ 53"
  shows "foldl (\<lambda>acc x. js_add acc (js_mul (P x) (Q x))) (Num a) xs =
           Num (a + (\<Sum>x\<leftarrow>xs. num_value (P x) * num_value (Q x)))"
  using assms
proof (induction xs arbitrary: a)
  case Nil
  then show ?case by simp
next
  case (Cons x xs)
  from Cons.prems(2) obtain p q where pq: "P x = Num p" "p \<in> \<int>" "Q x = Num q" "q \<in> \<int>"
    by (auto simp add: is_whole_Ints)
  let ?rest = "\<Sum>x\<leftarrow>xs. \<bar>num_value (P x) * num_value (Q x)\<bar>"
  have rest: "0 \<le> ?rest" by (rule sum_list_abs_nonneg)
  have bound: "\<bar>a\<bar> + \<bar>p * q\<bar> + ?rest \<le> 2 ^ 53"
    using Cons.prems(3) by (simp add: pq)
  have pq_int: "p * q \<in> \<int>" using pq by simp
  have "\<bar>p * q\<bar> \<le> 2 ^ 53" using bound rest by linarith
  then have mul: "round_to_double (p * q) = Num (p * q)"
    using pq_int by (simp add: round_to_double_whole)
  have sum_int: "a + p * q \<in> \<int>" using Cons.prems(1) pq_int by simp
  have "\<bar>a + p * q\<bar> \<le> \<bar>a\<bar> + \<bar>p * q\<bar>" by (rule abs_triangle_ineq)
  then have small: "\<bar>a + p * q\<bar> \<le> 2 ^ 53" using bound rest by linarith
  then have add: "round_to_double (a + p * q) = Num (a + p * q)"
    using sum_int by (simp add: round_to_double_whole)
  have "\<bar>a + p * q\<bar> + ?rest \<le> 2 ^ 53"
    using bound \<open>\<bar>a + p * q\<bar> \<le> \<bar>a\<bar> + \<bar>p * q\<bar>\<close> by linarith
  with Cons.IH [OF sum_int] Cons.prems(2)
  have "foldl (\<lambda>acc x. js_add acc (js_mul (P x) (Q x))) (Num (a + p * q)) xs =
          Num (a + p * q + (\<Sum>x\<leftarrow>xs. num_value (P x) * num_value (Q x)))"
    by simp
  then show ?case by (simp add: mul add pq add.assoc)
qed

lemma js_0_15_value: "js_0_15 = Num (5404319552844595 / 36028797018963968)"
  unfolding js_0_15_def by code_simp

lemma tax_of_200: "round_to_double (200 * (5404319552844595 / 36028797018963968)) = Num 30"
  by code_simp

lemma bulk_line: "round_to_double 360287970189639680 = Num 360287970189639680"
  by code_simp

lemma bulk_sum: "round_to_double 360287970189639720 = Num 360287970189639744"
  by code_simp

lemma tax_200: "js_mul (Num 200) js_0_15 = Num 30"
  unfolding js_0_15_value by (simp only: js_mul.simps tax_of_200)

section \<open>Lemmas on the point of sale page\<close>




lemma ordered_items: "orderItems ordered_state = sample_items"
  by (simp add: ordered_state_def order_events_def pos_initial_def handleTableSelect_def
        handleAddItem_def menuItems_def sample_items_def)

lemma sample_totals:
  "calculateTotals sample_items =
     \<lparr>calc_subtotal = Num 200, calc_tax = Num 30, calc_total = Num 230\<rparr>"
  by (simp add: calculateTotals_def sample_items_def round_small tax_200)

lemma bulk_items_eq:
  "bulk_items =
    [\<lparr>oi_id = ''1718000000001'', order_id = ''new'', menu_item_id = ''3'',
      menu_item_name = ''Coke 330ml'', quantity = Num 9007199254740992, unit_price = Num 40,
      oi_notes = Some [], oi_status = ItemNew\<rparr>,
     \<lparr>oi_id = ''1718000000002'', order_id = ''new'', menu_item_id = ''3'',
      menu_item_name = ''Coke 330ml'', quantity = Num 1, unit_price = Num 40,
      oi_notes = Some [], oi_status = ItemNew\<rparr>]"
  by (simp add: bulk_items_def bulk_events_def pos_initial_def handleTableSelect_def
        handleAddItem_def menuItems_def)

lemma pos_step_currentOrder:
  "currentOrder (pos_step st e) = currentOrder st \<or> currentOrder (pos_step st e) = None"
  by (cases e)
     (simp_all add: handleTabChange_def handleTableSelect_def handleAddItem_def
        handleRemoveItem_def handleOpenPayment_def handlePayment_def Let_def
        split: option.split)

lemma pos_run_currentOrder:
  "currentOrder (foldl pos_step st es) = currentOrder st \<or>
   currentOrder (foldl pos_step st es) = None"
proof (induction es rule: rev_induct)
  case Nil
  show ?case by simp
next
  case (snoc e es)
  show ?case
    using snoc.IH pos_step_currentOrder [of "foldl pos_step st es" e] by auto
qed

lemma pos_run_no_order: "currentOrder (foldl pos_step pos_initial es) = None"
  using pos_run_currentOrder [of pos_initial es] by (simp add: pos_initial_def)

section \<open>Order totals\<close>

text \<open>
  C1, as the code has it. For every list of order items whose unit prices and quantities
  are whole numbers, with the absolute values of unit price times quantity summing to at
  most \<open>2^53\<close>, the subtotal that \<open>calculateTotals\<close> computes is the sum over the items of
  unit price times quantity; two items of quantities 1 and 2, both at unit price 100,
  give the subtotal 300. Under the same condition on its entries the total of the mobile
  screen (\<open>calculateTotal\<close>) is the sum over the entries of price times quantity.
\<close>

theorem subtotal_is_sum_of_whole_lines:
  "(list_all (\<lambda>item. is_whole (unit_price item) \<and> is_whole (quantity item)) ois \<and>
    (\<Sum>item\<leftarrow>ois. \<bar>num_value (unit_price item) * num_value (quantity item)\<bar>) \<le> 2 ^ 53 \<longrightarrow>
      calc_subtotal (calculateTotals ois) =
        Num (\<Sum>item\<leftarrow>ois. num_value (unit_price item) * num_value (quantity item)))
   \<and> calc_subtotal (calculateTotals
         [a\<lparr>quantity := Num 1, unit_price := Num 100\<rparr>,
          b\<lparr>quantity := Num 2, unit_price := Num 100\<rparr>]) = Num 300
   \<and> (list_all (\<lambda>item. whole (me_price item) \<and> whole (entry_quantity item)) es \<and>
      (\<Sum>item\<leftarrow>es. \<bar>me_price item * entry_quantity item\<bar>) \<le> 2 ^ 53 \<longrightarrow>
        calculateTotal es = Num (\<Sum>item\<leftarrow>es. me_price item * entry_quantity item))"
proof (intro conjI impI)
  assume h: "list_all (\<lambda>item. is_whole (unit_price item) \<and> is_whole (quantity item)) ois \<and>
    (\<Sum>item\<leftarrow>ois. \<bar>num_value (unit_price item) * num_value (quantity item)\<bar>) \<le> 2 ^ 53"
  then have "foldl (\<lambda>acc item. js_add acc (js_mul (unit_price item) (quantity item))) (Num 0) ois =
      Num (0 + (\<Sum>item\<leftarrow>ois. num_value (unit_price item) * num_value (quantity item)))"
    by (intro foldl_whole_lines) (simp_all add: list_all_iff)
  then show "calc_subtotal (calculateTotals ois) =
      Num (\<Sum>item\<leftarrow>ois. num_value (unit_price item) * num_value (quantity item))"
    by (simp add: calculateTotals_def Let_def)
next
  show "calc_subtotal (calculateTotals
         [a\<lparr>quantity := Num 1, unit_price := Num 100\<rparr>,
          b\<lparr>quantity := Num 2, unit_price := Num 100\<rparr>]) = Num 300"
    by (simp add: calculateTotals_def Let_def round_small)
next
  assume h: "list_all (\<lambda>item. whole (me_price item) \<and> whole (entry_quantity item)) es \<and>
      (\<Sum>item\<leftarrow>es. \<bar>me_price item * entry_quantity item\<bar>) \<le> 2 ^ 53"
  then have "foldl (\<lambda>acc item. js_add acc (js_mul (Num (me_price item)) (Num (entry_quantity item))))
        (Num 0) es =
      Num (0 + (\<Sum>item\<leftarrow>es. num_value (Num (me_price item)) * num_value (Num (entry_quantity item))))"
    by (intro foldl_whole_lines) (simp_all add: list_all_iff whole_def)
  then show "calculateTotal es = Num (\<Sum>item\<leftarrow>es. me_price item * entry_quantity item)"
    by (simp add: calculateTotal_def)
qed

theorem subtotal_is_sum_of_whole_lines_witness:
  "list_all (\<lambda>item. is_whole (unit_price item) \<and> is_whole (quantity item)) sample_items
   \<and> (\<Sum>item\<leftarrow>sample_items. \<bar>num_value (unit_price item) * num_value (quantity item)\<bar>)
       \<le> 2 ^ 53
   \<and> calc_subtotal (calculateTotals sample_items) = Num 200
   \<and> list_all (\<lambda>item. whole (me_price item) \<and> whole (entry_quantity item))
        (addToOrder coke (addToOrder beef_burger []))
   \<and> (\<Sum>item\<leftarrow>addToOrder coke (addToOrder beef_burger []).
         \<bar>me_price item * entry_quantity item\<bar>) \<le> 2 ^ 53
   \<and> calculateTotal (addToOrder coke (addToOrder beef_burger [])) = Num 290"
  using subtotal_is_sum_of_whole_lines
    [of sample_items "hd sample_items" "hd sample_items"
        "addToOrder coke (addToOrder beef_burger [])"]
  by (simp add: sample_items_def addToOrder_def beef_burger_def coke_def whole_def)

text \<open>
  C1 as stated fails when 9007199254740992 Cokes and then one Coke are ordered: the
  subtotal computed is 360287970189639744, the sum of unit price times quantity is
  360287970189639720.
\<close>

theorem subtotal_rounds_counterexample:
  "calc_subtotal (calculateTotals bulk_items) = Num 360287970189639744
   \<and> (\<Sum>item\<leftarrow>bulk_items. num_value (unit_price item) * num_value (quantity item))
       = 360287970189639720"
  by (simp add: bulk_items_eq calculateTotals_def Let_def bulk_line bulk_sum round_small)



section \<open>Payment\<close>

text \<open>
  C3, as the code has it. \<open>handlePayment\<close> closes the payment dialog and changes nothing
  else of the page state: it records no payment, and the current order and the order
  items stay as they are. Over any run of the page's state changes the current order
  stays what it was or is cleared, and from the initial state there is never a current
  order: no \<open>payment_status\<close> is ever set to paid or partial.
\<close>

theorem handlePayment_only_closes_dialog:
  "handlePayment st = st\<lparr>openPaymentDialog := False\<rparr>
   \<and> openPaymentDialog (handlePayment st) = False
   \<and> currentOrder (handlePayment st) = currentOrder st
   \<and> orderItems (handlePayment st) = orderItems st
   \<and> (currentOrder (foldl pos_step st es) = currentOrder st \<or>
       currentOrder (foldl pos_step st es) = None)
   \<and> currentOrder (foldl pos_step pos_initial es) = None"
  using pos_run_currentOrder [of st es]
  by (simp add: handlePayment_def pos_run_no_order)

text \<open>
  C3 as stated fails at the payment of the order of one Coke and two French Fries: the
  dialog shows the total 230, and after \<open>handlePayment\<close> the page is in the state it had
  before the dialog was opened, with no order whose \<open>payment_status\<close> could be paid or
  partial.
\<close>

theorem payment_status_untouched_counterexample:
  "openPaymentDialog checkout_state
   \<and> calc_total (calculateTotals (orderItems checkout_state)) = Num 230
   \<and> handlePayment checkout_state = ordered_state
   \<and> map_option payment_status (currentOrder (handlePayment checkout_state)) = None"
proof -
  have closed: "openPaymentDialog ordered_state = False"
    by (simp add: ordered_state_def order_events_def pos_initial_def handleTableSelect_def
          handleAddItem_def menuItems_def)
  have none: "currentOrder ordered_state = None"
    unfolding ordered_state_def by (rule pos_run_no_order)
  have same: "handlePayment checkout_state = ordered_state"
    using closed by (simp add: checkout_state_def handleOpenPayment_def handlePayment_def)
  show ?thesis
    by (simp add: same none)
       (simp add: checkout_state_def handleOpenPayment_def ordered_items sample_totals)
qed

section \<open>Adding an item\<close>




section \<open>Low stock\<close>

text \<open>
  C4. An item is a row of the Low Stock tab if and only if it is an inventory item whose
  current stock is at most its minimum stock; an item whose stock equals its minimum is
  a row. The status cell reads Low Stock under the same condition.
\<close>

theorem low_stock_iff:
  "(item \<in> set (lowStockItems its) \<longleftrightarrow>
      item \<in> set its \<and> current_stock item \<le> min_stock item)
   \<and> (item \<in> set its \<and> current_stock item = min_stock item \<longrightarrow>
        item \<in> set (lowStockItems its))
   \<and> (stockStatus item = LowStock \<longleftrightarrow> current_stock item \<le> min_stock item)"
  by (auto simp add: lowStockItems_def stockStatus_def)

theorem low_stock_iff_witness:
  "beef_at_minimum \<in> set (beef_at_minimum # tl sampleInventoryItems)
   \<and> current_stock beef_at_minimum = min_stock beef_at_minimum
   \<and> beef_at_minimum \<in> set (lowStockItems (beef_at_minimum # tl sampleInventoryItems))
   \<and> lowStockItems (beef_at_minimum # tl sampleInventoryItems) = [beef_at_minimum]
   \<and> lowStockItems sampleInventoryItems = []"
  using low_stock_iff [of beef_at_minimum "beef_at_minimum # tl sampleInventoryItems"]
  by (simp add: beef_at_minimum_def sampleInventoryItems_def lowStockItems_def)

section \<open>Profit margin\<close>










section \<open>Inventory stock\<close>

lemma inventory_step_items:
  "inventoryItems (inventory_step toString st e) = inventoryItems st"
  by (cases e)
     (simp_all add: inv_handleTabChange_def handleOpenDialog_def handleCloseDialog_def
        handleSubmit_def Let_def split: dialog_mode.split option.split)

lemma inventory_run_items:
  "inventoryItems (foldl (inventory_step toString) st es) = inventoryItems st"
  by (induction es rule: rev_induct) (simp_all add: inventory_step_items)

text \<open>
  C9, as the code has it. On the inventory page \<open>handleSubmit\<close> closes the dialog and
  changes nothing else of the page state; in particular it leaves the inventory items as
  they are. Pressing a button without a handler (Receive, Issue, New Transaction) changes
  nothing. Every run of the page's events leaves the inventory items, and so every
  \<open>current_stock\<close>, as they were; from the initial state the items are always the three
  sample items.
\<close>

theorem submit_only_closes_dialog:
  "handleSubmit st = st\<lparr>openDialog := False\<rparr>
   \<and> openDialog (handleSubmit st) = False
   \<and> inventoryItems (handleSubmit st) = inventoryItems st
   \<and> inventory_step toString st PressUnboundButton = st
   \<and> inventoryItems (foldl (inventory_step toString) st es) = inventoryItems st
   \<and> inventoryItems (foldl (inventory_step toString) inventory_initial es) = sampleInventoryItems"
  using inventory_run_items [of toString inventory_initial es]
  by (simp add: inventory_run_items handleSubmit_def handleCloseDialog_def inventory_initial_def)

text \<open>
  C9 as stated fails on the edit dialog of Beef with 20 typed as the stock: after the
  submit the stock of Beef is 12.5 as before, neither set to 20 nor raised by 20.
\<close>

theorem submit_leaves_stock_counterexample:
  "form_currentStock restock_state = ''20''
   \<and> map current_stock (inventoryItems restock_state) = [125 / 10, 240, 152 / 10]
   \<and> map current_stock (inventoryItems (handleSubmit restock_state)) = [125 / 10, 240, 152 / 10]"
  by (simp add: restock_state_def inventory_initial_def sampleInventoryItems_def
        handleSubmit_def handleCloseDialog_def)

section \<open>Mobile order list\<close>

lemma find_map_preserve:
  "(\<And>x. P (f x) = P x) \<Longrightarrow> find P (map f xs) = map_option f (find P xs)"
  by (induction xs) simp_all

lemma find_filter_other:
  "(\<And>x. P x \<Longrightarrow> Q x) \<Longrightarrow> find P (filter Q xs) = find P xs"
  by (induction xs) auto

lemma find_filter_none:
  "(\<And>x. P x \<Longrightarrow> \<not> Q x) \<Longrightarrow> find P (filter Q xs) = None"
  by (induction xs) auto

lemma find_snoc:
  "find P (xs @ [y]) = (case find P xs of None \<Rightarrow> (if P y then Some y else None) | Some x \<Rightarrow> Some x)"
  by (induction xs) simp_all

lemma find_Some_mem: "find P xs = Some x \<Longrightarrow> x \<in> set xs \<and> P x"
  by (induction xs) (auto split: if_splits)

lemma find_None_mem: "find P xs = None \<Longrightarrow> x \<in> set xs \<Longrightarrow> \<not> P x"
  by (induction xs) (auto split: if_splits)

lemma quantity_of_addToOrder_same:
  "quantity_of (me_id item) (addToOrder item xs) = quantity_of (me_id item) xs + 1"
proof (cases "find (\<lambda>orderItem. me_id orderItem = me_id item) xs")
  case None
  then show ?thesis
    by (simp add: addToOrder_def quantity_of_def find_snoc)
next
  case (Some x)
  then have "me_id x = me_id item" by (auto dest: find_Some_mem)
  with Some show ?thesis
    by (simp add: addToOrder_def quantity_of_def find_map_preserve)
qed

lemma quantity_of_addToOrder_other:
  assumes "j \<noteq> me_id item"
  shows "quantity_of j (addToOrder item xs) = quantity_of j xs"
proof (cases "find (\<lambda>orderItem. me_id orderItem = me_id item) xs")
  case None
  with assms show ?thesis
    by (simp add: addToOrder_def quantity_of_def find_snoc split: option.split)
next
  case (Some x)
  show ?thesis
  proof (cases "find (\<lambda>e. me_id e = j) xs")
    case None
    with Some show ?thesis
      by (simp add: addToOrder_def quantity_of_def find_map_preserve)
  next
    case (Some y)
    then have "me_id y = j" by (auto dest: find_Some_mem)
    with Some \<open>find _ xs = Some x\<close> assms show ?thesis
      by (simp add: addToOrder_def quantity_of_def find_map_preserve)
  qed
qed

lemma ids_addToOrder:
  "map me_id (addToOrder item xs) =
     (if me_id item \<in> set (map me_id xs) then map me_id xs else map me_id xs @ [me_id item])"
proof (cases "find (\<lambda>orderItem. me_id orderItem = me_id item) xs")
  case None
  then have "me_id item \<notin> set (map me_id xs)" by (auto dest: find_None_mem)
  with None show ?thesis by (simp add: addToOrder_def)
next
  case (Some x)
  then have "me_id item \<in> set (map me_id xs)" by (force dest: find_Some_mem)
  with Some show ?thesis by (simp add: addToOrder_def comp_def if_distrib cong: if_cong)
qed

lemma quantity_of_removeFromOrder_same:
  "quantity_of i (removeFromOrder i xs) =
     (if 1 < quantity_of i xs then quantity_of i xs - 1 else 0)"
proof (cases "find (\<lambda>item. me_id item = i) xs")
  case None
  then show ?thesis
    by (simp add: removeFromOrder_def quantity_of_def find_filter_none)
next
  case (Some x)
  then have "me_id x = i" by (auto dest: find_Some_mem)
  with Some show ?thesis
    by (simp add: removeFromOrder_def quantity_of_def find_map_preserve find_filter_none)
qed

lemma quantity_of_removeFromOrder_other:
  assumes "j \<noteq> i"
  shows "quantity_of j (removeFromOrder i xs) = quantity_of j xs"
proof -
  have filt: "find (\<lambda>e. me_id e = j) (filter (\<lambda>item. me_id item \<noteq> i) xs) = find (\<lambda>e. me_id e = j) xs"
    using assms by (intro find_filter_other) auto
  have mapped: "find (\<lambda>e. me_id e = j)
      (map (\<lambda>item. if me_id item = i then item\<lparr>entry_quantity := entry_quantity item - 1\<rparr> else item) xs)
      = map_option (\<lambda>item. if me_id item = i then item\<lparr>entry_quantity := entry_quantity item - 1\<rparr> else item)
          (find (\<lambda>e. me_id e = j) xs)"
    by (intro find_map_preserve) simp
  show ?thesis
  proof (cases "find (\<lambda>e. me_id e = j) xs")
    case None
    with filt mapped show ?thesis
      by (simp add: removeFromOrder_def quantity_of_def split: option.split)
  next
    case (Some y)
    then have "me_id y = j" by (auto dest: find_Some_mem)
    with Some filt mapped assms show ?thesis
      by (simp add: removeFromOrder_def quantity_of_def split: option.split)
  qed
qed

lemma ids_removeFromOrder:
  "map me_id (removeFromOrder i xs) =
     (if 1 < quantity_of i xs then map me_id xs else filter (\<lambda>j. j \<noteq> i) (map me_id xs))"
proof -
  have "map me_id (filter (\<lambda>item. me_id item \<noteq> i) xs) = filter (\<lambda>j. j \<noteq> i) (map me_id xs)"
    by (simp add: filter_map comp_def)
  moreover have "map me_id
      (map (\<lambda>item. if me_id item = i then item\<lparr>entry_quantity := entry_quantity item - 1\<rparr> else item) xs)
      = map me_id xs"
    by (simp add: comp_def if_distrib cong: if_cong)
  ultimately show ?thesis
    by (simp add: removeFromOrder_def quantity_of_def split: option.split)
qed

lemma whole_Ints: "whole q \<longleftrightarrow> q \<in> \<int>"
  by (auto simp add: whole_def Ints_def)

lemma order_ok_alt:
  "order_ok entries \<longleftrightarrow>
     distinct (map me_id entries) \<and>
     list_all (\<lambda>item. entry_quantity item \<in> \<int> \<and> 1 \<le> entry_quantity item) entries"
  by (simp add: order_ok_def whole_Ints)

lemma whole_above_one:
  fixes q :: number
  assumes "q \<in> \<int>" and "1 < q"
  shows "q - 1 \<in> \<int> \<and> 1 \<le> q - 1"
proof -
  from assms(1) obtain k :: int where k: "q = of_int k" by (auto elim: Ints_cases)
  with assms(2) have "1 < k" by simp
  then have "2 \<le> k" by simp
  then have "(2::rat) \<le> of_int k" by (metis of_int_le_iff of_int_numeral)
  with k show ?thesis by simp
qed

lemma order_ok_Nil: "order_ok []"
  by (simp add: order_ok_alt)

lemma order_ok_addToOrder:
  assumes "order_ok xs"
  shows "order_ok (addToOrder item xs)"
proof -
  have d: "distinct (map me_id (addToOrder item xs))"
    using assms by (simp add: ids_addToOrder order_ok_alt)
  have q: "list_all (\<lambda>e. entry_quantity e \<in> \<int> \<and> 1 \<le> entry_quantity e) (addToOrder item xs)"
    using assms
    by (auto simp add: addToOrder_def order_ok_alt list_all_iff split: option.split)
  from d q show ?thesis by (simp add: order_ok_alt)
qed

lemma order_ok_removeFromOrder:
  assumes "order_ok xs"
  shows "order_ok (removeFromOrder i xs)"
proof -
  have d: "distinct (map me_id (removeFromOrder i xs))"
    using assms by (simp add: ids_removeFromOrder order_ok_alt)
  have inj: "inj_on me_id (set xs)"
    using assms by (simp add: order_ok_alt distinct_map)
  have all: "\<And>e. e \<in> set xs \<Longrightarrow> entry_quantity e \<in> \<int> \<and> 1 \<le> entry_quantity e"
    using assms by (simp add: order_ok_alt list_all_iff)
  have q: "list_all (\<lambda>e. entry_quantity e \<in> \<int> \<and> 1 \<le> entry_quantity e) (removeFromOrder i xs)"
  proof (cases "find (\<lambda>item. me_id item = i) xs")
    case None
    with all show ?thesis by (simp add: removeFromOrder_def list_all_iff)
  next
    case (Some x)
    then have x: "x \<in> set xs" "me_id x = i" by (auto dest: find_Some_mem)
    show ?thesis
    proof (cases "1 < entry_quantity x")
      case False
      with Some all show ?thesis by (simp add: removeFromOrder_def list_all_iff)
    next
      case True
      have "\<And>e. e \<in> set xs \<Longrightarrow> me_id e = i \<Longrightarrow> e = x"
        using inj x by (auto dest: inj_onD)
      with True all x have "\<And>e. e \<in> set xs \<Longrightarrow> me_id e = i \<Longrightarrow>
          entry_quantity e - 1 \<in> \<int> \<and> 1 \<le> entry_quantity e - 1"
        using whole_above_one by blast
      with Some True all show ?thesis
        by (auto simp add: removeFromOrder_def list_all_iff)
    qed
  qed
  from d q show ?thesis by (simp add: order_ok_alt)
qed

lemma order_ok_step: "order_ok xs \<Longrightarrow> order_ok (order_step xs a)"
  by (cases a) (simp_all add: order_ok_addToOrder order_ok_removeFromOrder)

lemma order_ok_run: "order_ok (order_run actions)"
  unfolding order_run_def
  by (induction actions rule: rev_induct) (simp_all add: order_ok_Nil order_ok_step)

text \<open>
  C10. On the mobile order screen, after any run of \<open>addToOrder\<close> and
  \<open>removeFromOrder\<close> from the empty order every entry has a quantity of at least 1 and
  no id occurs in two entries. \<open>addToOrder\<close> raises the quantity shown for the item's
  id by 1 and adds a line only when the id is not there yet; \<open>removeFromOrder\<close> lowers
  the quantity by 1 when it is above 1 and deletes the entries of the id otherwise.
  Neither changes the quantity shown for another id.
\<close>

theorem order_list_invariant:
  "(\<forall>entry \<in> set (order_run actions). 1 \<le> entry_quantity entry)
   \<and> distinct (map me_id (order_run actions))
   \<and> quantity_of (me_id item) (addToOrder item entries) = quantity_of (me_id item) entries + 1
   \<and> map me_id (addToOrder item entries) =
       (if me_id item \<in> set (map me_id entries) then map me_id entries
        else map me_id entries @ [me_id item])
   \<and> (j \<noteq> me_id item \<longrightarrow> quantity_of j (addToOrder item entries) = quantity_of j entries)
   \<and> quantity_of itemId (removeFromOrder itemId entries) =
       (if 1 < quantity_of itemId entries then quantity_of itemId entries - 1 else 0)
   \<and> map me_id (removeFromOrder itemId entries) =
       (if 1 < quantity_of itemId entries then map me_id entries
        else filter (\<lambda>k. k \<noteq> itemId) (map me_id entries))
   \<and> (j \<noteq> itemId \<longrightarrow>
        quantity_of j (removeFromOrder itemId entries) = quantity_of j entries)"
  using order_ok_run [of actions]
  by (simp add: order_ok_alt list_all_iff quantity_of_addToOrder_same ids_addToOrder
        quantity_of_addToOrder_other quantity_of_removeFromOrder_same ids_removeFromOrder
        quantity_of_removeFromOrder_other)

lemma sample_run:
  "order_run sample_actions =
     [\<lparr>me_id = ''1'', me_name = ''Beef Burger'', me_price = 250, me_category = ''Burgers'',
       entry_quantity = 1\<rparr>]"
  by (simp add: order_run_def sample_actions_def addToOrder_def removeFromOrder_def
        beef_burger_def coke_def)

theorem order_list_invariant_witness:
  "hd (order_run sample_actions) \<in> set (order_run sample_actions)
   \<and> 1 \<le> entry_quantity (hd (order_run sample_actions))
   \<and> ''3'' \<noteq> me_id beef_burger
   \<and> quantity_of ''3'' (addToOrder beef_burger (order_run sample_actions)) = 0
   \<and> quantity_of ''1'' (addToOrder beef_burger (order_run sample_actions)) = 2
   \<and> ''3'' \<noteq> ''1''
   \<and> quantity_of ''3'' (removeFromOrder ''1'' (order_run sample_actions)) = 0
   \<and> removeFromOrder ''1'' (order_run sample_actions) = []"
  using order_list_invariant [of sample_actions beef_burger "order_run sample_actions" "''3''" "''1''"]
  by (simp add: sample_run beef_burger_def quantity_of_def removeFromOrder_def)


end
